theory Spec2Isabelle
  imports Complex_Main "HOL-Library.Multiset"
begin

section \<open>Data model\<close>

text \<open>
  The document returned by \<^verbatim>\<open>response.json()\<close>. A JSON number (a Python int or
  float) is a real; an object is the association list of the parsed dict, looked up
  with \<open>map_of\<close>.
\<close>

datatype json =
    JNull
  | JBool bool
  | JNum real
  | JStr string
  | JArr "json list"
  | JObj "(string \<times> json) list"

text \<open>
  A cell of the \<^verbatim>\<open>timestamp\<close> column after \<^verbatim>\<open>pd.to_datetime\<close>: an instant in
  milliseconds since the epoch, or \<open>None\<close> for \<^verbatim>\<open>NaT\<close>. A cell of the
  \<^verbatim>\<open>value\<close> column after \<^verbatim>\<open>pd.to_numeric\<close>: a \<open>number\<close>, finite or infinite,
  or \<open>None\<close> for \<^verbatim>\<open>NaN\<close>. Rounding to float64 is not modelled.
\<close>

datatype number = Finite real | PlusInf | MinusInf

type_synonym stamp = "real option"
type_synonym raw_frame = "(json \<times> json) list"
type_synonym stamped_frame = "(stamp \<times> json) list"
type_synonym frame = "(stamp \<times> number option) list"

section \<open>The pandas operations used by the source\<close>

text \<open>
  The three operations of pandas whose results depend on the cells are not code of
  this repository, and what they do on some cells depends on the version of the
  library (a timestamp that is a numeric string, an instant beyond the range of
  nanoseconds, a value such as \<^verbatim>\<open>1e3\<close> or \<^verbatim>\<open>inf\<close>). They are parameters of the
  model, the fields of \<open>lib\<close>:
  \<^item> \<open>to_datetime lib x\<close> is \<^verbatim>\<open>pd.to_datetime(col, unit='ms')\<close> on the cell \<open>x\<close>:
    \<open>None\<close> when the call raises, otherwise the cell of the new column;
  \<^item> \<open>sort_values lib df\<close> is \<^verbatim>\<open>df.sort_values('timestamp')\<close>;
  \<^item> \<open>to_numeric lib y\<close> is \<^verbatim>\<open>pd.to_numeric(col, errors='coerce')\<close> on the cell
    \<open>y\<close>, which does not raise.
\<close>

record pandas =
  to_datetime :: "json \<Rightarrow> stamp option"
  sort_values :: "stamped_frame \<Rightarrow> stamped_frame"
  to_numeric :: "json \<Rightarrow> number option"

text \<open>The conversion of the whole column: it raises as soon as one cell does.\<close>

fun to_datetime_col :: "pandas \<Rightarrow> raw_frame \<Rightarrow> stamped_frame option" where
  "to_datetime_col lib [] = Some []"
| "to_datetime_col lib ((x, y) # rest) =
     (case to_datetime lib x of
        None \<Rightarrow> None
      | Some t \<Rightarrow>
          (case to_datetime_col lib rest of
             None \<Rightarrow> None
           | Some df \<Rightarrow> Some ((t, y) # df)))"

text \<open>
  The order \<^verbatim>\<open>sort_values\<close> sorts the column by: instants ascending,
  \<^verbatim>\<open>NaT\<close> last.
\<close>

fun stamp_le :: "stamp \<Rightarrow> stamp \<Rightarrow> bool" where
  "stamp_le (Some a) (Some b) = (a \<le> b)"
| "stamp_le (Some a) None = True"
| "stamp_le None (Some b) = False"
| "stamp_le None None = True"

text \<open>
  \<^verbatim>\<open>df.sort_values('timestamp')\<close> is called with the default
  \<^verbatim>\<open>kind='quicksort'\<close>, which pandas documents as not stable. \<open>sort_contract\<close> is
  what the library promises of it: the same rows, in ascending order of the
  timestamp. The order of rows of equal timestamp is left to the library.
\<close>

definition ascending :: "(stamp \<times> 'a) list \<Rightarrow> bool" where
  "ascending df = sorted_wrt (\<lambda>r s. stamp_le (fst r) (fst s)) df"

definition sort_contract :: "(stamped_frame \<Rightarrow> stamped_frame) \<Rightarrow> bool" where
  "sort_contract srt = (\<forall>df. mset (srt df) = mset df \<and> ascending (srt df))"

text \<open>
  \<^verbatim>\<open>pd.Timestamp.now().normalize() - pd.Timedelta(days=365)\<close>, with \<open>now\<close> the
  reading of the clock in milliseconds.
\<close>

definition day_ms :: real where
  "day_ms = 86400000"

definition normalize_day :: "real \<Rightarrow> real" where
  "normalize_day now = of_int \<lfloor>now / day_ms\<rfloor> * day_ms"

definition last_year_of :: "real \<Rightarrow> real" where
  "last_year_of now = normalize_day now - 365 * day_ms"

text \<open>\<^verbatim>\<open>df['timestamp'] >= last_year\<close> on one cell: false on \<^verbatim>\<open>NaT\<close>.\<close>

fun stamp_ge :: "stamp \<Rightarrow> real \<Rightarrow> bool" where
  "stamp_ge (Some t) c = (c \<le> t)"
| "stamp_ge None c = False"

text \<open>\<^verbatim>\<open>df.dropna(subset=['value'])\<close>.\<close>

definition dropna :: "frame \<Rightarrow> frame" where
  "dropna df = filter (\<lambda>r. snd r \<noteq> None) df"

section \<open>The history pipeline\<close>

text \<open>
  The loop of \<^verbatim>\<open>get_fear_greed_data\<close> over the items of the \<^verbatim>\<open>data\<close> array: a
  dict with both an \<^verbatim>\<open>x\<close> and a \<^verbatim>\<open>y\<close> gives a row, anything else is skipped
  with a warning.
\<close>

fun time_series_data :: "json list \<Rightarrow> raw_frame" where
  "time_series_data [] = []"
| "time_series_data (item # rest) =
     (case item of
        JObj kv \<Rightarrow>
          (case (map_of kv ''x'', map_of kv ''y'') of
             (Some x, Some y) \<Rightarrow> (x, y) # time_series_data rest
           | _ \<Rightarrow> time_series_data rest)
      | _ \<Rightarrow> time_series_data rest)"

text \<open>
  \<^verbatim>\<open>get_fear_greed_data\<close>, from the parsed document on. \<open>None\<close> is the
  \<^verbatim>\<open>None\<close> the source returns, on each of its checks and from its handler of
  every exception. A document that is not a dict ends in that handler or in the
  first check.
\<close>

definition get_fear_greed_data :: "pandas \<Rightarrow> real \<Rightarrow> json \<Rightarrow> frame option" where
  "get_fear_greed_data lib now data =
     (case data of
        JObj entries \<Rightarrow>
          (case map_of entries ''fear_and_greed_historical'' of
             None \<Rightarrow> None
           | Some historical_data_dict \<Rightarrow>
               (case historical_data_dict of
                  JObj members \<Rightarrow>
                    (case map_of members ''data'' of
                       None \<Rightarrow> None
                     | Some actual_historical_list \<Rightarrow>
                         (case actual_historical_list of
                            JArr items \<Rightarrow>
                              if items = [] then None
                              else if time_series_data items = [] then None
                              else
                                (case to_datetime_col lib (time_series_data items) of
                                   None \<Rightarrow> None
                                 | Some stamped \<Rightarrow>
                                     (let df = sort_values lib stamped;
                                          last_year = last_year_of now;
                                          df = filter (\<lambda>r. stamp_ge (fst r) last_year) df;
                                          df = map (\<lambda>r. (fst r, to_numeric lib (snd r))) df;
                                          df = dropna df
                                      in if df = [] then None else Some df))
                          | _ \<Rightarrow> None))
                | _ \<Rightarrow> None))
      | _ \<Rightarrow> None)"

text \<open>
  Parts of \<^verbatim>\<open>get_fear_greed_data\<close> as functions of their own: \<open>row_of\<close> is the
  test of line 74 with the row of lines 75 to 78, for one item; \<open>extract_rows\<close> is
  lines 40 to 87 (the shape checks and the loop); \<open>coerce_rows\<close> is lines 104 and
  105 (the coercion and the drop); \<open>normalize_rows\<close> is lines 90 to 105
  (conversion, sort, window, coercion), before the test on emptiness of line 107.
  Lemma \<open>get_fear_greed_data_split\<close> below shows that the function is the
  composition of \<open>extract_rows\<close> and \<open>normalize_rows\<close>.
\<close>

definition row_of :: "json \<Rightarrow> (json \<times> json) option" where
  "row_of item =
     (case item of
        JObj kv \<Rightarrow>
          (case (map_of kv ''x'', map_of kv ''y'') of
             (Some x, Some y) \<Rightarrow> Some (x, y)
           | _ \<Rightarrow> None)
      | _ \<Rightarrow> None)"

definition extract_rows :: "json \<Rightarrow> raw_frame option" where
  "extract_rows data =
     (case data of
        JObj entries \<Rightarrow>
          (case map_of entries ''fear_and_greed_historical'' of
             None \<Rightarrow> None
           | Some historical_data_dict \<Rightarrow>
               (case historical_data_dict of
                  JObj members \<Rightarrow>
                    (case map_of members ''data'' of
                       None \<Rightarrow> None
                     | Some actual_historical_list \<Rightarrow>
                         (case actual_historical_list of
                            JArr items \<Rightarrow>
                              if items = [] then None
                              else if time_series_data items = [] then None
                              else Some (time_series_data items)
                          | _ \<Rightarrow> None))
                | _ \<Rightarrow> None))
      | _ \<Rightarrow> None)"


definition normalize_rows :: "pandas \<Rightarrow> real \<Rightarrow> raw_frame \<Rightarrow> frame option" where
  "normalize_rows lib now tsd =
     (case to_datetime_col lib tsd of
        None \<Rightarrow> None
      | Some stamped \<Rightarrow>
          (let df = sort_values lib stamped;
               last_year = last_year_of now;
               df = filter (\<lambda>r. stamp_ge (fst r) last_year) df;
               df = map (\<lambda>r. (fst r, to_numeric lib (snd r))) df;
               df = dropna df
           in Some df))"

text \<open>The document whose history holds the array \<open>items\<close> and nothing else.\<close>

definition history_doc :: "json list \<Rightarrow> json" where
  "history_doc items =
     JObj [(''fear_and_greed_historical'', JObj [(''data'', JArr items)])]"

section \<open>The normalizer of the specification\<close>

text \<open>
  One sort that meets the contract, and the sort the specification asks for:
  insertion sort, which keeps rows of equal timestamp in the order they came in.
\<close>

fun insert_row :: "stamp \<times> 'a \<Rightarrow> (stamp \<times> 'a) list \<Rightarrow> (stamp \<times> 'a) list" where
  "insert_row r [] = [r]"
| "insert_row r (s # rest) =
     (if stamp_le (fst r) (fst s) then r # s # rest else s # insert_row r rest)"

fun stable_sort :: "(stamp \<times> 'a) list \<Rightarrow> (stamp \<times> 'a) list" where
  "stable_sort [] = []"
| "stable_sort (r # rest) = insert_row r (stable_sort rest)"

text \<open>
  The normalizer as the specification words it, to compare with \<open>normalize_rows\<close>:
  convert each timestamp, sort ascending by timestamp, coerce each value and drop
  the points whose coercion fails, then retain the points at or after the cutoff.
  \<open>spec_steps\<close> takes the sort of its second step from \<open>lib\<close>;
  \<open>spec_normalize\<close> is the specification's normalizer, whose sort is stable.
\<close>

definition spec_steps :: "pandas \<Rightarrow> real \<Rightarrow> raw_frame \<Rightarrow> frame option" where
  "spec_steps lib now tsd =
     (case to_datetime_col lib tsd of
        None \<Rightarrow> None
      | Some stamped \<Rightarrow>
          Some (filter (\<lambda>r. stamp_ge (fst r) (last_year_of now))
                 (filter (\<lambda>r. snd r \<noteq> None)
                   (map (\<lambda>r. (fst r, to_numeric lib (snd r)))
                     (sort_values lib stamped)))))"

definition spec_normalize :: "pandas \<Rightarrow> real \<Rightarrow> raw_frame \<Rightarrow> frame option" where
  "spec_normalize lib now tsd = spec_steps (lib\<lparr>sort_values := stable_sort\<rparr>) now tsd"

text \<open>
  A returned series read again as raw points, to apply the normalizer to its own
  output: the instant as its epoch milliseconds, the value as a number, an infinite
  value as the string pandas reads it from. \<open>restamp\<close> is the row of the stamped
  frame that the conversion is to give back. In pandas the conversion leaves a
  column of instants as it is, and the coercion a column of numbers: \<open>reads_back\<close>
  says so of \<open>lib\<close> for one row. \<open>normalize_twice\<close> is the normalizer applied to
  its own output.
\<close>

fun as_raw :: "stamp \<times> number option \<Rightarrow> json \<times> json" where
  "as_raw (t, v) =
     ((case t of None \<Rightarrow> JNull | Some q \<Rightarrow> JNum q),
      (case v of
         None \<Rightarrow> JNull
       | Some (Finite q) \<Rightarrow> JNum q
       | Some PlusInf \<Rightarrow> JStr ''inf''
       | Some MinusInf \<Rightarrow> JStr ''-inf''))"

definition restamp :: "stamp \<times> number option \<Rightarrow> stamp \<times> json" where
  "restamp r = (fst r, snd (as_raw r))"

definition reads_back :: "pandas \<Rightarrow> stamp \<times> number option \<Rightarrow> bool" where
  "reads_back lib r =
     (to_datetime lib (fst (as_raw r)) = Some (fst r) \<and>
      to_numeric lib (snd (as_raw r)) = snd r)"

definition normalize_twice :: "pandas \<Rightarrow> real \<Rightarrow> raw_frame \<Rightarrow> frame option" where
  "normalize_twice lib now tsd =
     (case normalize_rows lib now tsd of
        None \<Rightarrow> None
      | Some out \<Rightarrow> normalize_rows lib now (map as_raw out))"

section \<open>The component pipeline\<close>

text \<open>The loop of \<^verbatim>\<open>get_component_data\<close> over the items.\<close>

fun component_series_data :: "json list \<Rightarrow> raw_frame" where
  "component_series_data [] = []"
| "component_series_data (item # rest) =
     (case item of
        JObj kv \<Rightarrow>
          (case (map_of kv ''x'', map_of kv ''y'') of
             (Some x, Some y) \<Rightarrow> (x, y) # component_series_data rest
           | _ \<Rightarrow> component_series_data rest)
      | _ \<Rightarrow> component_series_data rest)"

text \<open>\<^verbatim>\<open>get_component_data(component_key)\<close>, from the parsed document on.\<close>

definition get_component_data :: "pandas \<Rightarrow> real \<Rightarrow> string \<Rightarrow> json \<Rightarrow> frame option" where
  "get_component_data lib now component_key data =
     (case data of
        JObj entries \<Rightarrow>
          (case map_of entries component_key of
             None \<Rightarrow> None
           | Some component_data_dict \<Rightarrow>
               (case component_data_dict of
                  JObj members \<Rightarrow>
                    (case map_of members ''data'' of
                       None \<Rightarrow> None
                     | Some actual_component_list \<Rightarrow>
                         (case actual_component_list of
                            JArr items \<Rightarrow>
                              if items = [] then None
                              else if component_series_data items = [] then None
                              else
                                (case to_datetime_col lib (component_series_data items) of
                                   None \<Rightarrow> None
                                 | Some stamped \<Rightarrow>
                                     (let df = sort_values lib stamped;
                                          last_year = last_year_of now;
                                          df = filter (\<lambda>r. stamp_ge (fst r) last_year) df;
                                          df = map (\<lambda>r. (fst r, to_numeric lib (snd r))) df;
                                          df = dropna df
                                      in if df = [] then None else Some df))
                          | _ \<Rightarrow> None))
                | _ \<Rightarrow> None))
      | _ \<Rightarrow> None)"

section \<open>The current reading and the caption\<close>

text \<open>\<^verbatim>\<open>dict.get(key)\<close>: \<^verbatim>\<open>None\<close> for a missing key and for a null.\<close>

definition py_get :: "(string \<times> json) list \<Rightarrow> string \<Rightarrow> json option" where
  "py_get members k =
     (case map_of members k of
        None \<Rightarrow> None
      | Some JNull \<Rightarrow> None
      | Some v \<Rightarrow> Some v)"

text \<open>
  \<^verbatim>\<open>get_current_fear_greed\<close>, from the parsed document on: the pair
  \<^verbatim>\<open>(score, rating)\<close>, or \<^verbatim>\<open>(None, None)\<close>.
\<close>

definition get_current_fear_greed :: "json \<Rightarrow> json option \<times> json option" where
  "get_current_fear_greed data =
     (case data of
        JObj entries \<Rightarrow>
          (case map_of entries ''fear_and_greed'' of
             None \<Rightarrow> (None, None)
           | Some current_data \<Rightarrow>
               (case current_data of
                  JObj members \<Rightarrow>
                    (let score = py_get members ''score'';
                         rating = py_get members ''rating''
                     in if score = None \<or> rating = None then (None, None)
                        else (score, rating))
                | _ \<Rightarrow> (None, None)))
      | _ \<Rightarrow> (None, None))"

text \<open>
  \<^verbatim>\<open>str.title()\<close> on ASCII text, the text \<open>ascii_text\<close> holds of. Python goes
  through the characters: one that follows a cased character is lowered, any other
  is raised, and in ASCII the cased characters are the letters. \<open>prev\<close> says
  whether the previous character was a letter. Beyond ASCII Python takes the case
  of a character from the Unicode tables, which are not modelled: the theorems on
  the caption are about ASCII ratings.
\<close>

definition ascii_text :: "string \<Rightarrow> bool" where
  "ascii_text s = list_all (\<lambda>c. (of_char c :: nat) < 128) s"

definition is_lower :: "char \<Rightarrow> bool" where
  "is_lower c = (97 \<le> (of_char c :: nat) \<and> (of_char c :: nat) \<le> 122)"

definition is_upper :: "char \<Rightarrow> bool" where
  "is_upper c = (65 \<le> (of_char c :: nat) \<and> (of_char c :: nat) \<le> 90)"

definition is_letter :: "char \<Rightarrow> bool" where
  "is_letter c = (is_lower c \<or> is_upper c)"

definition to_upper :: "char \<Rightarrow> char" where
  "to_upper c = char_of ((of_char c :: nat) - 32)"

definition to_lower :: "char \<Rightarrow> char" where
  "to_lower c = char_of ((of_char c :: nat) + 32)"

fun title_from :: "bool \<Rightarrow> string \<Rightarrow> string" where
  "title_from prev [] = []"
| "title_from prev (c # cs) =
     (if is_lower c then (if prev then c else to_upper c) # title_from True cs
      else if is_upper c then (if prev then to_lower c else c) # title_from True cs
      else c # title_from False cs)"

definition ascii_title :: "string \<Rightarrow> string" where
  "ascii_title s = title_from False s"

text \<open>\<^verbatim>\<open>s.replace('_', ' ')\<close>.\<close>

definition replace_underscores :: "string \<Rightarrow> string" where
  "replace_underscores s = map (\<lambda>c. if c = CHR ''_'' then CHR '' '' else c) s"

text \<open>
  \<^verbatim>\<open>formatted_rating = current_rating.replace('_', ' ').title()\<close>, for an ASCII
  rating.
\<close>

definition formatted_rating :: "string \<Rightarrow> string" where
  "formatted_rating current_rating = ascii_title (replace_underscores current_rating)"

text \<open>
  What the caption is to show in the place of the character \<open>c\<close>, as the
  specification words it: a space for an underscore, a capital for a letter that
  starts a word, a small letter for a letter inside a word, and \<open>c\<close> itself
  otherwise. \<open>inside\<close> says whether the character before \<open>c\<close> is a letter.
\<close>

definition caption_char :: "bool \<Rightarrow> char \<Rightarrow> char" where
  "caption_char inside c =
     (if c = CHR ''_'' then CHR '' ''
      else if is_lower c then (if inside then c else to_upper c)
      else if is_upper c then (if inside then to_lower c else c)
      else c)"

section \<open>Chart files\<close>

text \<open>
  What one invocation meets: whether the current reading and the history were
  fetched, whether the chart was rendered (which writes the file), and whether
  sending the text and sending the photo raise. The state is the set of the files
  of the working directory.
\<close>

record delivery =
  current_ok :: bool
  historical_ok :: bool
  chart_ok :: bool
  text_raises :: bool
  photo_raises :: bool

text \<open>
  The \<^verbatim>\<open>/feargreed\<close> command. After the photo is sent the source has
  \<^verbatim>\<open># os.remove(chart_path)\<close>, a comment: nothing removes the file.
\<close>

definition feargreed :: "delivery \<Rightarrow> string set \<Rightarrow> string set" where
  "feargreed d files =
     (if \<not> current_ok d then files
      else if \<not> historical_ok d then files
      else if chart_ok d then
        (let files = insert ''fear_greed_chart.png'' files
         in if text_raises d then files
            else if photo_raises d then files
            else files)
      else files)"

text \<open>
  The scheduled job. The photo is sent inside \<^verbatim>\<open>try\<close> \<dots> \<^verbatim>\<open>finally\<close>, and the
  \<^verbatim>\<open>finally\<close> removes the file; the text is sent before that \<^verbatim>\<open>try\<close>.
\<close>

definition scheduled_feargreed :: "delivery \<Rightarrow> string set \<Rightarrow> string set" where
  "scheduled_feargreed d files =
     (if \<not> current_ok d then files
      else if \<not> historical_ok d then files
      else if chart_ok d then
        (let files = insert ''scheduled_fear_greed_chart.png'' files
         in if text_raises d then files
            else files - {''scheduled_fear_greed_chart.png''})
      else files)"

section \<open>Libraries for the examples\<close>

text \<open>
  The theorems below hold for every \<open>lib\<close>. To run the pipeline on an example one
  library is needed. \<open>plain\<close> answers as pandas does on the cells of the examples:
  a number of milliseconds converts to that instant and a null to \<^verbatim>\<open>NaT\<close>; a
  number coerces to itself, a string of decimal digits to the integer it writes, a
  null to \<^verbatim>\<open>NaN\<close>. Its answers on the other cells are a choice of this library
  alone, and no example has such a cell. Its sort is the stable one.
\<close>

definition digit_of :: "char \<Rightarrow> nat option" where
  "digit_of c =
     (let code = (of_char c :: nat)
      in if 48 \<le> code \<and> code \<le> 57 then Some (code - 48) else None)"

fun digits_value :: "nat \<Rightarrow> string \<Rightarrow> nat option" where
  "digits_value acc [] = Some acc"
| "digits_value acc (c # cs) =
     (case digit_of c of
        None \<Rightarrow> None
      | Some d \<Rightarrow> digits_value (10 * acc + d) cs)"

fun plain_to_datetime :: "json \<Rightarrow> stamp option" where
  "plain_to_datetime (JNum q) = Some (Some q)"
| "plain_to_datetime JNull = Some None"
| "plain_to_datetime (JBool b) = None"
| "plain_to_datetime (JStr s) = None"
| "plain_to_datetime (JArr xs) = None"
| "plain_to_datetime (JObj kv) = None"

fun plain_to_numeric :: "json \<Rightarrow> number option" where
  "plain_to_numeric (JNum q) = Some (Finite q)"
| "plain_to_numeric (JBool b) = Some (Finite (if b then 1 else 0))"
| "plain_to_numeric (JStr s) =
     (if s = [] then None
      else (case digits_value 0 s of
              None \<Rightarrow> None
            | Some n \<Rightarrow> Some (Finite (real n))))"
| "plain_to_numeric JNull = None"
| "plain_to_numeric (JArr xs) = None"
| "plain_to_numeric (JObj kv) = None"

definition plain :: pandas where
  "plain = \<lparr>to_datetime = plain_to_datetime, sort_values = stable_sort,
            to_numeric = plain_to_numeric\<rparr>"

text \<open>
  The library's sort does not promise the order of rows of equal timestamp: on a
  short frame it keeps them in the order they came in, on a longer one it need
  not. \<open>regrouping\<close> is \<open>plain\<close> with one such sort: stable on frames of at most 16
  rows, and on longer frames ascending with the rows of equal timestamp in the
  reverse of the order they came in. The order pandas gives such rows depends on
  the build of numpy it runs on and is not modelled: the theorems on
  \<open>regrouping\<close> state only that an output differs from another.
  \<open>seventeen_ties\<close> is a list of 17 raw points of one timestamp.
\<close>

definition regrouping_sort :: "stamped_frame \<Rightarrow> stamped_frame" where
  "regrouping_sort df = (if length df \<le> 16 then stable_sort df else stable_sort (rev df))"

definition regrouping :: pandas where
  "regrouping = plain\<lparr>sort_values := regrouping_sort\<rparr>"

definition seventeen_ties :: raw_frame where
  "seventeen_ties =
     [(JNum 1700000000000, JNum 1), (JNum 1700000000000, JNum 2),
      (JNum 1700000000000, JNum 3), (JNum 1700000000000, JNum 4),
      (JNum 1700000000000, JNum 5), (JNum 1700000000000, JNum 6),
      (JNum 1700000000000, JNum 7), (JNum 1700000000000, JNum 8),
      (JNum 1700000000000, JNum 9), (JNum 1700000000000, JNum 10),
      (JNum 1700000000000, JNum 11), (JNum 1700000000000, JNum 12),
      (JNum 1700000000000, JNum 13), (JNum 1700000000000, JNum 14),
      (JNum 1700000000000, JNum 15), (JNum 1700000000000, JNum 16),
      (JNum 1700000000000, JNum 17)]"

section \<open>Sorting\<close>

lemma stamp_le_refl: "stamp_le a a"
  by (cases a) auto

lemma stamp_le_trans: "stamp_le a b \<Longrightarrow> stamp_le b c \<Longrightarrow> stamp_le a c"
  by (cases a; cases b; cases c) auto

lemma stamp_le_total: "stamp_le a b \<or> stamp_le b a"
  by (cases a; cases b) auto

lemma stamp_le_antisym: "stamp_le a b \<Longrightarrow> stamp_le b a \<Longrightarrow> a = b"
  by (cases a; cases b) auto

lemma mset_insert_row: "mset (insert_row r df) = add_mset r (mset df)"
  by (induction df) auto

lemma mset_stable_sort: "mset (stable_sort df) = mset df"
  by (induction df) (auto simp: mset_insert_row)

lemma set_insert_row: "set (insert_row r df) = insert r (set df)"
  by (induction df) auto

lemma ascending_insert_row: "ascending df \<Longrightarrow> ascending (insert_row r df)"
proof (induction df)
  case Nil
  then show ?case by (simp add: ascending_def)
next
  case (Cons s rest)
  show ?case
  proof (cases "stamp_le (fst r) (fst s)")
    case True
    with Cons.prems show ?thesis
      by (auto simp: ascending_def intro: stamp_le_trans)
  next
    case False
    then have "stamp_le (fst s) (fst r)" using stamp_le_total by blast
    with False Cons show ?thesis
      by (auto simp: ascending_def set_insert_row)
  qed
qed

lemma ascending_stable_sort: "ascending (stable_sort df)"
  by (induction df) (auto simp: ascending_insert_row, simp add: ascending_def)

lemma stable_sort_meets_contract: "sort_contract stable_sort"
  by (simp add: sort_contract_def mset_stable_sort ascending_stable_sort)

lemma plain_meets_contract: "sort_contract (sort_values plain)"
  by (simp add: plain_def stable_sort_meets_contract)

lemma regrouping_meets_contract: "sort_contract (sort_values regrouping)"
  by (simp add: regrouping_def sort_contract_def regrouping_sort_def mset_stable_sort
      ascending_stable_sort)

lemma insert_row_ascending_id: "ascending (r # df) \<Longrightarrow> insert_row r df = r # df"
  by (cases df) (auto simp: ascending_def)

lemma stable_sort_ascending_id: "ascending df \<Longrightarrow> stable_sort df = df"
proof (induction df)
  case Nil
  then show ?case by simp
next
  case (Cons r rest)
  then have "stable_sort rest = rest" by (simp add: ascending_def)
  with Cons.prems show ?case by (simp add: insert_row_ascending_id)
qed

lemma ascending_unique:
  "mset ys = mset zs \<Longrightarrow> ascending ys \<Longrightarrow> ascending zs \<Longrightarrow> distinct (map fst ys) \<Longrightarrow> ys = zs"
proof (induction ys arbitrary: zs)
  case Nil
  then show ?case by simp
next
  case (Cons y ys)
  then obtain z zs' where zs: "zs = z # zs'" by (cases zs) auto
  have sets: "set (y # ys) = set (z # zs')"
    using Cons.prems(1) zs by (metis set_mset_mset)
  have "y = z"
  proof (rule ccontr)
    assume ne: "y \<noteq> z"
    then have "y \<in> set zs'" and "z \<in> set ys" using sets by auto
    then have "stamp_le (fst z) (fst y)" and "stamp_le (fst y) (fst z)"
      using Cons.prems(2,3) zs by (auto simp: ascending_def)
    then have "fst y = fst z" by (rule stamp_le_antisym[rotated])
    moreover have "fst z \<in> fst ` set ys" using \<open>z \<in> set ys\<close> by auto
    ultimately show False using Cons.prems(4) by auto
  qed
  moreover have "ys = zs'"
    using Cons.IH[of zs'] Cons.prems zs \<open>y = z\<close> by (auto simp: ascending_def)
  ultimately show ?case using zs by simp
qed

lemma sorter_on_distinct:
  "sort_contract srt \<Longrightarrow> distinct (map fst df) \<Longrightarrow> srt df = stable_sort df"
proof -
  assume c: "sort_contract srt" and d: "distinct (map fst df)"
  have m: "mset (srt df) = mset (stable_sort df)"
    using c by (simp add: sort_contract_def mset_stable_sort)
  have "mset (map fst (srt df)) = mset (map fst df)"
    using c by (simp add: sort_contract_def)
  then have "distinct (map fst (srt df))"
    using d by (metis distinct_count_atmost_1 set_mset_mset)
  with m c show ?thesis
    by (intro ascending_unique) (auto simp: sort_contract_def ascending_stable_sort)
qed

section \<open>The normalizer\<close>

lemma get_fear_greed_data_split:
  "get_fear_greed_data lib now data =
     (case extract_rows data of
        None \<Rightarrow> None
      | Some tsd \<Rightarrow>
          (case normalize_rows lib now tsd of
             None \<Rightarrow> None
           | Some df \<Rightarrow> if df = [] then None else Some df))"
  by (simp add: get_fear_greed_data_def extract_rows_def normalize_rows_def Let_def
      split: json.splits option.splits)

lemma ascending_filter: "ascending df \<Longrightarrow> ascending (filter P df)"
  by (simp add: ascending_def sorted_wrt_filter)

lemma ascending_coerce: "ascending df \<Longrightarrow> ascending (map (\<lambda>r. (fst r, f (snd r))) df)"
  by (simp add: ascending_def sorted_wrt_map)

lemma normalize_Some:
  "to_datetime_col lib tsd = Some stamped \<Longrightarrow>
   normalize_rows lib now tsd =
     Some (dropna (map (\<lambda>r. (fst r, to_numeric lib (snd r)))
       (filter (\<lambda>r. stamp_ge (fst r) (last_year_of now)) (sort_values lib stamped))))"
  by (simp add: normalize_rows_def)

lemma normalize_ascending:
  assumes "sort_contract (sort_values lib)" and "normalize_rows lib now tsd = Some df"
  shows "ascending df"
proof -
  from assms(2) obtain stamped where s: "to_datetime_col lib tsd = Some stamped"
    by (cases "to_datetime_col lib tsd") (auto simp: normalize_rows_def)
  have "ascending (sort_values lib stamped)" using assms(1) by (simp add: sort_contract_def)
  then show ?thesis
    using assms(2) unfolding normalize_Some[OF s] dropna_def
    by (auto intro!: ascending_filter ascending_coerce)
qed

lemma normalize_after_cutoff:
  assumes "normalize_rows lib now tsd = Some df" and "r \<in> set df"
  shows "\<exists>t v. r = (Some t, Some v) \<and> last_year_of now \<le> t"
proof -
  from assms(1) obtain stamped where s: "to_datetime_col lib tsd = Some stamped"
    by (cases "to_datetime_col lib tsd") (auto simp: normalize_rows_def)
  from assms have "stamp_ge (fst r) (last_year_of now)" and "snd r \<noteq> None"
    unfolding normalize_Some[OF s] dropna_def by auto
  then show ?thesis by (cases r; cases "fst r"; cases "snd r") auto
qed

lemma cutoff_bounds:
  "last_year_of now \<le> now - 365 * day_ms \<and> now - 366 * day_ms < last_year_of now"
proof -
  have "of_int \<lfloor>now / day_ms\<rfloor> \<le> now / day_ms" and "now / day_ms < of_int \<lfloor>now / day_ms\<rfloor> + 1"
    by linarith+
  then have "of_int \<lfloor>now / day_ms\<rfloor> * day_ms \<le> now" and "now < (of_int \<lfloor>now / day_ms\<rfloor> + 1) * day_ms"
    by (simp_all add: day_ms_def field_simps)
  then show ?thesis
    by (simp add: last_year_of_def normalize_day_def algebra_simps)
qed

section \<open>Claims on the history returned\<close>

text \<open>
  Claim C1, as amended. Whatever the library does on the cells, as long as its sort
  meets its contract, a series returned by \<open>get_fear_greed_data\<close> is in ascending
  order of timestamp, and every point of it has an instant and a number, the
  instant at or after the cutoff. The cutoff is the start of the day of \<open>now\<close>
  less 365 days, so it is at most \<open>now\<close> less 365 days. Nothing bounds the
  timestamps from above.
\<close>

theorem history_sorted_and_after_cutoff:
  assumes "sort_contract (sort_values lib)" and "get_fear_greed_data lib now data = Some df"
  shows "ascending df \<and>
         (\<forall>r \<in> set df. \<exists>t v. r = (Some t, Some v) \<and> last_year_of now \<le> t) \<and>
         last_year_of now = normalize_day now - 365 * day_ms \<and>
         last_year_of now \<le> now - 365 * day_ms"
proof -
  from assms(2) obtain tsd where "normalize_rows lib now tsd = Some df"
    by (auto simp: get_fear_greed_data_split split: option.splits if_splits)
  then show ?thesis
    using normalize_ascending[OF assms(1)] normalize_after_cutoff cutoff_bounds
    by (auto simp: last_year_of_def)
qed

lemma future_point_eval:
  "get_fear_greed_data plain 1700200000000
     (history_doc [JObj [(''x'', JNum 4102444800000), (''y'', JNum 50)]])
   = Some [(Some 4102444800000, Some (Finite 50))]"
  by (simp add: get_fear_greed_data_def history_doc_def plain_def last_year_of_def
      normalize_day_def day_ms_def dropna_def)

theorem history_sorted_and_after_cutoff_witness:
  "sort_contract (sort_values plain) \<and>
   get_fear_greed_data plain 1700200000000
     (history_doc [JObj [(''x'', JNum 4102444800000), (''y'', JNum 50)]])
     = Some [(Some 4102444800000, Some (Finite 50))] \<and>
   ascending [(Some (4102444800000 :: real), Some (Finite 50))] \<and>
   last_year_of 1700200000000 \<le> 4102444800000"
  using history_sorted_and_after_cutoff[OF plain_meets_contract future_point_eval]
    plain_meets_contract future_point_eval
  by simp

text \<open>
  Claim C1 as stated fails: with \<open>now\<close> in November 2023, a point dated in the year
  2100 is returned, and its timestamp is not at or before \<open>now\<close>.
\<close>

theorem future_point_retained:
  "get_fear_greed_data plain 1700200000000
     (history_doc [JObj [(''x'', JNum 4102444800000), (''y'', JNum 50)]])
     = Some [(Some 4102444800000, Some (Finite 50))] \<and>
   \<not> (4102444800000 \<le> (1700200000000 :: real))"
  using future_point_eval by simp

lemma old_point_eval:
  "normalize_rows plain 1700200000000 [(JNum 1000000000000, JNum 50)] = Some []"
  by (simp add: normalize_rows_def plain_def last_year_of_def
      normalize_day_def day_ms_def dropna_def)

lemma old_point_extract:
  "extract_rows (history_doc [JObj [(''x'', JNum 1000000000000), (''y'', JNum 50)]])
     = Some [(JNum 1000000000000, JNum 50)]"
  by (simp add: extract_rows_def history_doc_def)

text \<open>
  Claim C3, as amended. \<open>get_fear_greed_data\<close> never returns an empty series: when
  nothing is left after the window and the coercion, it returns \<open>None\<close>, the value
  it returns on every failure.
\<close>

theorem empty_series_is_None:
  "get_fear_greed_data lib now data \<noteq> Some [] \<and>
   (extract_rows data = Some tsd \<and> normalize_rows lib now tsd = Some [] \<longrightarrow>
      get_fear_greed_data lib now data = None)"
  by (auto simp: get_fear_greed_data_split split: option.splits)

theorem empty_series_is_None_witness:
  "extract_rows (history_doc [JObj [(''x'', JNum 1000000000000), (''y'', JNum 50)]])
     = Some [(JNum 1000000000000, JNum 50)] \<and>
   normalize_rows plain 1700200000000 [(JNum 1000000000000, JNum 50)] = Some [] \<and>
   get_fear_greed_data plain 1700200000000
     (history_doc [JObj [(''x'', JNum 1000000000000), (''y'', JNum 50)]]) = None"
  using empty_series_is_None[where lib = plain and now = 1700200000000
      and data = "history_doc [JObj [(''x'', JNum 1000000000000), (''y'', JNum 50)]]"
      and tsd = "[(JNum 1000000000000, JNum 50)]"]
    old_point_eval old_point_extract
  by simp

text \<open>
  Claim C3 as stated fails: the one point of this history is from 2001, the window
  and the coercion leave the empty series, and the function does not return it.
\<close>

theorem empty_series_not_returned:
  "normalize_rows plain 1700200000000 [(JNum 1000000000000, JNum 50)] = Some [] \<and>
   get_fear_greed_data plain 1700200000000
     (history_doc [JObj [(''x'', JNum 1000000000000), (''y'', JNum 50)]]) \<noteq> Some []"
  using old_point_eval
  by (simp add: get_fear_greed_data_def history_doc_def plain_def last_year_of_def
      normalize_day_def day_ms_def dropna_def)

text \<open>
  Claim C5, as amended. For a document that lacks the key
  \<^verbatim>\<open>fear_and_greed_historical\<close>, and for one whose historical object holds an empty
  \<^verbatim>\<open>data\<close> array, \<open>get_fear_greed_data\<close> returns \<open>None\<close>: the same value in
  both cases.
\<close>

theorem empty_and_missing_both_None:
  "(map_of entries ''fear_and_greed_historical'' = None \<longrightarrow>
      get_fear_greed_data lib now (JObj entries) = None) \<and>
   (map_of entries ''fear_and_greed_historical'' = Some (JObj members) \<and>
    map_of members ''data'' = Some (JArr []) \<longrightarrow>
      get_fear_greed_data lib now (JObj entries) = None)"
  by (simp add: get_fear_greed_data_def)

theorem empty_and_missing_both_None_witness:
  "map_of ([] :: (string \<times> json) list) ''fear_and_greed_historical'' = None \<and>
   get_fear_greed_data plain 1700200000000 (JObj []) = None \<and>
   map_of [(''fear_and_greed_historical'', JObj [(''data'', JArr [])])]
      ''fear_and_greed_historical'' = Some (JObj [(''data'', JArr [])]) \<and>
   map_of [(''data'', JArr [])] ''data'' = Some (JArr []) \<and>
   get_fear_greed_data plain 1700200000000
     (JObj [(''fear_and_greed_historical'', JObj [(''data'', JArr [])])]) = None"
  using empty_and_missing_both_None[where entries = "[]" and lib = plain
      and now = 1700200000000]
    empty_and_missing_both_None[where lib = plain and now = 1700200000000
      and entries = "[(''fear_and_greed_historical'', JObj [(''data'', JArr [])])]"
      and members = "[(''data'', JArr [])]"]
  by simp

text \<open>
  Claim C5 as stated fails: the outcome for the empty array and the outcome for the
  missing key are one and the same value.
\<close>

theorem empty_and_missing_same_outcome:
  "get_fear_greed_data plain 1700200000000
     (JObj [(''fear_and_greed_historical'', JObj [(''data'', JArr [])])])
   = get_fear_greed_data plain 1700200000000 (JObj [])"
  by (simp add: get_fear_greed_data_def)

section \<open>Claims on the component pipeline and the files\<close>

lemma component_series_data_eq: "component_series_data items = time_series_data items"
  by (induction items) (auto split: json.splits option.splits)

text \<open>
  Claim C10. For every document, every clock reading and every library,
  \<open>get_component_data\<close> with the key \<^verbatim>\<open>fear_and_greed_historical\<close> returns what
  \<open>get_fear_greed_data\<close> returns.
\<close>

theorem component_pipeline_same:
  "get_component_data lib now ''fear_and_greed_historical'' data
     = get_fear_greed_data lib now data"
  by (simp add: get_component_data_def get_fear_greed_data_def component_series_data_eq
      split: json.splits option.splits)

text \<open>
  Claim C9, at the inputs where the code departs from it. A \<^verbatim>\<open>/feargreed\<close> command
  for which both fetches succeed, the chart is rendered and both sends succeed,
  started in an empty directory, ends with the chart file still there. The scheduled
  job in the same case ends with its file removed, also when sending the photo
  raises; it leaves its file when sending the text raises.
\<close>

theorem feargreed_leaves_chart:
  "feargreed \<lparr>current_ok = True, historical_ok = True, chart_ok = True,
       text_raises = False, photo_raises = False\<rparr> {}
     = {''fear_greed_chart.png''} \<and>
   scheduled_feargreed \<lparr>current_ok = True, historical_ok = True, chart_ok = True,
       text_raises = False, photo_raises = False\<rparr> {}
     = {} \<and>
   scheduled_feargreed \<lparr>current_ok = True, historical_ok = True, chart_ok = True,
       text_raises = False, photo_raises = True\<rparr> {}
     = {} \<and>
   scheduled_feargreed \<lparr>current_ok = True, historical_ok = True, chart_ok = True,
       text_raises = True, photo_raises = False\<rparr> {}
     = {''scheduled_fear_greed_chart.png''}"
  by (simp add: feargreed_def scheduled_feargreed_def)

section \<open>Claims on the extraction\<close>

lemma time_series_data_Cons:
  "time_series_data (item # rest) =
     (case row_of item of None \<Rightarrow> time_series_data rest
      | Some r \<Rightarrow> r # time_series_data rest)"
  by (simp add: row_of_def split: json.splits option.splits)

lemma time_series_data_append:
  "time_series_data (xs @ ys) = time_series_data xs @ time_series_data ys"
  by (induction xs) (simp_all add: time_series_data_Cons del: time_series_data.simps(2) split: option.splits)

lemma time_series_data_all_points:
  "\<forall>item \<in> set xs. row_of item \<noteq> None \<Longrightarrow> map Some (time_series_data xs) = map row_of xs"
  by (induction xs) (auto simp: time_series_data_Cons simp del: time_series_data.simps(2))

lemma extract_rows_history_doc:
  "extract_rows (history_doc items) =
     (if time_series_data items = [] then None else Some (time_series_data items))"
  by (auto simp: extract_rows_def history_doc_def)

text \<open>
  Claim C6. When exactly one item \<open>bad\<close> of the \<^verbatim>\<open>data\<close> array is not a dict with
  both an \<^verbatim>\<open>x\<close> and a \<^verbatim>\<open>y\<close>, the loop gives one row for every other item, in
  order, and none for \<open>bad\<close>: the rows are those of the array without \<open>bad\<close>. The
  extraction has the outcome it has without \<open>bad\<close>, and succeeds with those rows
  as soon as there is another item; \<open>get_fear_greed_data\<close> returns what it returns
  without \<open>bad\<close>.
\<close>

theorem one_malformed_item_skipped:
  assumes "row_of bad = None" and "\<forall>item \<in> set (xs @ ys). row_of item \<noteq> None"
  shows "map Some (time_series_data (xs @ bad # ys)) = map row_of (xs @ ys) \<and>
         time_series_data (xs @ bad # ys) = time_series_data (xs @ ys) \<and>
         length (time_series_data (xs @ bad # ys)) = length xs + length ys \<and>
         extract_rows (history_doc (xs @ bad # ys)) = extract_rows (history_doc (xs @ ys)) \<and>
         (xs @ ys \<noteq> [] \<longrightarrow>
            extract_rows (history_doc (xs @ bad # ys)) = Some (time_series_data (xs @ ys))) \<and>
         get_fear_greed_data lib now (history_doc (xs @ bad # ys))
           = get_fear_greed_data lib now (history_doc (xs @ ys))"
proof -
  have same: "time_series_data (xs @ bad # ys) = time_series_data (xs @ ys)"
    using assms(1)
    by (simp add: time_series_data_append time_series_data_Cons del: time_series_data.simps(2))
  have rows: "map Some (time_series_data (xs @ ys)) = map row_of (xs @ ys)"
    using assms(2) by (rule time_series_data_all_points)
  then have "length (map Some (time_series_data (xs @ ys))) = length (map row_of (xs @ ys))"
    by simp
  then have len: "length (time_series_data (xs @ ys)) = length xs + length ys" by simp
  then have ne: "xs @ ys \<noteq> [] \<Longrightarrow> time_series_data (xs @ ys) \<noteq> []" by auto
  show ?thesis
    using same rows len ne
    by (simp add: extract_rows_history_doc get_fear_greed_data_split)
qed

theorem one_malformed_item_skipped_witness:
  "row_of (JObj [(''x'', JNum 2)]) = None \<and>
   row_of (JObj [(''x'', JNum 1), (''y'', JNum 10)]) = Some (JNum 1, JNum 10) \<and>
   row_of (JObj [(''x'', JNum 3), (''y'', JNum 30)]) = Some (JNum 3, JNum 30) \<and>
   time_series_data
     [JObj [(''x'', JNum 1), (''y'', JNum 10)], JObj [(''x'', JNum 2)],
      JObj [(''x'', JNum 3), (''y'', JNum 30)]]
     = [(JNum 1, JNum 10), (JNum 3, JNum 30)] \<and>
   extract_rows (history_doc
     [JObj [(''x'', JNum 1), (''y'', JNum 10)], JObj [(''x'', JNum 2)],
      JObj [(''x'', JNum 3), (''y'', JNum 30)]])
     = Some [(JNum 1, JNum 10), (JNum 3, JNum 30)]"
proof -
  have a: "row_of (JObj [(''x'', JNum 2)]) = None"
    by (simp add: row_of_def)
  have b: "\<forall>item \<in> set ([JObj [(''x'', JNum 1), (''y'', JNum 10)]]
      @ [JObj [(''x'', JNum 3), (''y'', JNum 30)]]). row_of item \<noteq> None"
    by (simp add: row_of_def)
  have "extract_rows (history_doc ([JObj [(''x'', JNum 1), (''y'', JNum 10)]]
      @ JObj [(''x'', JNum 2)] # [JObj [(''x'', JNum 3), (''y'', JNum 30)]]))
    = Some (time_series_data ([JObj [(''x'', JNum 1), (''y'', JNum 10)]]
      @ [JObj [(''x'', JNum 3), (''y'', JNum 30)]]))"
    using one_malformed_item_skipped[OF a b] by blast
  then show ?thesis
    by (simp add: row_of_def)
qed

section \<open>Claims on the current reading and the caption\<close>

lemma to_upper_not_underscore: "is_lower c \<Longrightarrow> to_upper c \<noteq> CHR ''_''"
proof
  assume l: "is_lower c" and "to_upper c = CHR ''_''"
  then have "(of_char (char_of ((of_char c :: nat) - 32)) :: nat) = of_char CHR ''_''"
    by (simp add: to_upper_def)
  then have m: "((of_char c :: nat) - 32) mod 256 = 95" by simp
  from l have "(of_char c :: nat) - 32 < 256" and "(of_char c :: nat) - 32 < 95"
    unfolding is_lower_def by linarith+
  with m show False by simp
qed

lemma to_lower_not_underscore: "is_upper c \<Longrightarrow> to_lower c \<noteq> CHR ''_''"
proof
  assume l: "is_upper c" and "to_lower c = CHR ''_''"
  then have "(of_char (char_of ((of_char c :: nat) + 32)) :: nat) = of_char CHR ''_''"
    by (simp add: to_lower_def)
  then have m: "((of_char c :: nat) + 32) mod 256 = 95" by simp
  from l have "(of_char c :: nat) + 32 < 256" and "95 < (of_char c :: nat) + 32"
    unfolding is_upper_def by linarith+
  with m show False by simp
qed

lemma length_title_from: "length (title_from prev s) = length s"
  by (induction s arbitrary: prev) auto

lemma underscore_title_from:
  "CHR ''_'' \<notin> set s \<Longrightarrow> CHR ''_'' \<notin> set (title_from prev s)"
proof (induction s arbitrary: prev)
  case Nil
  then show ?case by simp
next
  case (Cons c cs)
  then have rest: "CHR ''_'' \<notin> set (title_from b cs)" for b by simp
  from Cons.prems have c: "c \<noteq> CHR ''_''" by auto
  show ?case
  proof (cases "is_lower c")
    case True
    with c rest to_upper_not_underscore[OF True] show ?thesis
      by (cases prev) (simp_all add: eq_commute)
  next
    case False
    show ?thesis
    proof (cases "is_upper c")
      case True
      with False c rest to_lower_not_underscore[OF True] show ?thesis
        by (cases prev) (simp_all add: eq_commute)
    next
      case nu: False
      with False c rest show ?thesis by (simp add: eq_commute)
    qed
  qed
qed

lemma formatted_rating_no_underscore: "CHR ''_'' \<notin> set (formatted_rating r)"
  unfolding formatted_rating_def ascii_title_def
  by (rule underscore_title_from) (auto simp: replace_underscores_def)

lemma formatted_rating_length: "length (formatted_rating r) = length r"
  by (simp add: formatted_rating_def ascii_title_def replace_underscores_def length_title_from)

lemma title_from_nth:
  "i < length s \<Longrightarrow>
   title_from prev s ! i =
     (if is_lower (s ! i) then
        (if (if i = 0 then prev else is_letter (s ! (i - 1))) then s ! i else to_upper (s ! i))
      else if is_upper (s ! i) then
        (if (if i = 0 then prev else is_letter (s ! (i - 1))) then to_lower (s ! i) else s ! i)
      else s ! i)"
proof (induction s arbitrary: prev i)
  case Nil
  then show ?case by simp
next
  case (Cons c cs)
  show ?case
  proof (cases i)
    case 0
    then show ?thesis by simp
  next
    case (Suc j)
    with Cons.prems have j: "j < length cs" by simp
    show ?thesis
      using Cons.IH[OF j] Suc by (cases j) (simp_all add: is_letter_def)
  qed
qed

lemma blank_not_letter:
  "\<not> is_lower CHR '' ''" "\<not> is_upper CHR '' ''" "\<not> is_lower CHR ''_''" "\<not> is_upper CHR ''_''"
  by (simp_all add: is_lower_def is_upper_def)

lemma formatted_rating_nth:
  assumes "i < length r"
  shows "formatted_rating r ! i = caption_char (0 < i \<and> is_letter (r ! (i - 1))) (r ! i)"
proof -
  let ?s = "replace_underscores r"
  have len: "i < length ?s" using assms by (simp add: replace_underscores_def)
  have at: "?s ! k = (if r ! k = CHR ''_'' then CHR '' '' else r ! k)" if "k < length r" for k
    using that by (simp add: replace_underscores_def)
  have letter: "is_letter (?s ! k) = is_letter (r ! k)" if "k < length r" for k
    using that by (simp add: at is_letter_def blank_not_letter)
  show ?thesis
  proof (cases i)
    case 0
    then show ?thesis
      using assms title_from_nth[OF len, of False]
      by (simp add: formatted_rating_def ascii_title_def caption_char_def at blank_not_letter)
  next
    case (Suc j)
    then have j: "j < length r" using assms by simp
    show ?thesis
      using assms Suc title_from_nth[OF len, of False] letter[OF j]
      by (simp add: formatted_rating_def ascii_title_def caption_char_def at blank_not_letter)
  qed
qed

text \<open>
  Claim C8. For a document whose \<^verbatim>\<open>fear_and_greed\<close> object has the score 42.5 and
  the rating \<^verbatim>\<open>fear\<close>, \<open>get_current_fear_greed\<close> returns that score and that
  rating. The caption renders \<^verbatim>\<open>fear\<close> as \<^verbatim>\<open>Fear\<close>, \<^verbatim>\<open>extreme_fear\<close> as
  \<^verbatim>\<open>Extreme Fear\<close>, \<^verbatim>\<open>FEAR\<close> as \<^verbatim>\<open>Fear\<close> and \<^verbatim>\<open>EXTREME_GREED\<close> as
  \<^verbatim>\<open>Extreme Greed\<close>. For every ASCII rating, the rendered rating has the length of
  the rating and no underscore, and shows in the place of each character a space
  for an underscore, a capital for a letter that starts a word, a small letter for
  a letter inside a word, and the character itself otherwise.
\<close>

theorem current_reading_and_caption:
  "(map_of entries ''fear_and_greed'' = Some (JObj members) \<and>
    map_of members ''score'' = Some (JNum 42.5) \<and>
    map_of members ''rating'' = Some (JStr ''fear'') \<longrightarrow>
      get_current_fear_greed (JObj entries) = (Some (JNum 42.5), Some (JStr ''fear''))) \<and>
   formatted_rating ''fear'' = ''Fear'' \<and>
   formatted_rating ''extreme_fear'' = ''Extreme Fear'' \<and>
   formatted_rating ''FEAR'' = ''Fear'' \<and>
   formatted_rating ''EXTREME_GREED'' = ''Extreme Greed'' \<and>
   (ascii_text r \<longrightarrow>
      length (formatted_rating r) = length r \<and>
      CHR ''_'' \<notin> set (formatted_rating r) \<and>
      (\<forall>i < length r.
         formatted_rating r ! i = caption_char (0 < i \<and> is_letter (r ! (i - 1))) (r ! i)))"
proof -
  have "formatted_rating ''fear'' = ''Fear''" by code_simp
  moreover have "formatted_rating ''extreme_fear'' = ''Extreme Fear''" by code_simp
  moreover have "formatted_rating ''FEAR'' = ''Fear''" by code_simp
  moreover have "formatted_rating ''EXTREME_GREED'' = ''Extreme Greed''" by code_simp
  moreover have "map_of entries ''fear_and_greed'' = Some (JObj members) \<and>
    map_of members ''score'' = Some (JNum 42.5) \<and>
    map_of members ''rating'' = Some (JStr ''fear'') \<longrightarrow>
      get_current_fear_greed (JObj entries) = (Some (JNum 42.5), Some (JStr ''fear''))"
    by (simp add: get_current_fear_greed_def py_get_def)
  moreover have "\<forall>i < length r.
      formatted_rating r ! i = caption_char (0 < i \<and> is_letter (r ! (i - 1))) (r ! i)"
    using formatted_rating_nth by blast
  ultimately show ?thesis
    using formatted_rating_no_underscore[of r] formatted_rating_length[of r] by blast
qed

theorem current_reading_and_caption_witness:
  "map_of [(''fear_and_greed'', JObj [(''score'', JNum 42.5), (''rating'', JStr ''fear'')])]
      ''fear_and_greed'' = Some (JObj [(''score'', JNum 42.5), (''rating'', JStr ''fear'')]) \<and>
   map_of [(''score'', JNum 42.5), (''rating'', JStr ''fear'')] ''score'' = Some (JNum 42.5) \<and>
   map_of [(''score'', JNum 42.5), (''rating'', JStr ''fear'')] ''rating''
      = Some (JStr ''fear'') \<and>
   get_current_fear_greed
     (JObj [(''fear_and_greed'', JObj [(''score'', JNum 42.5), (''rating'', JStr ''fear'')])])
     = (Some (JNum 42.5), Some (JStr ''fear'')) \<and>
   ascii_text ''extreme_greed'' \<and>
   length (formatted_rating ''extreme_greed'') = 13 \<and>
   formatted_rating ''extreme_greed'' ! 7 = CHR '' '' \<and>
   formatted_rating ''extreme_greed'' ! 8 = CHR ''G'' \<and>
   formatted_rating ''extreme_greed'' ! 9 = CHR ''r''"
proof -
  note c8 = current_reading_and_caption[where
      entries = "[(''fear_and_greed'', JObj [(''score'', JNum 42.5), (''rating'', JStr ''fear'')])]"
      and members = "[(''score'', JNum 42.5), (''rating'', JStr ''fear'')]"
      and r = "''extreme_greed''"]
  have a: "ascii_text ''extreme_greed''" by code_simp
  have reader: "get_current_fear_greed
     (JObj [(''fear_and_greed'', JObj [(''score'', JNum 42.5), (''rating'', JStr ''fear'')])])
     = (Some (JNum 42.5), Some (JStr ''fear''))"
    using c8 by simp
  have len: "length (formatted_rating ''extreme_greed'') = length ''extreme_greed''"
    using c8 a by blast
  have nth: "\<forall>i < length ''extreme_greed''.
      formatted_rating ''extreme_greed'' ! i
        = caption_char (0 < i \<and> is_letter (''extreme_greed'' ! (i - 1))) (''extreme_greed'' ! i)"
    using c8 a by blast
  have c7: "caption_char (0 < (7 :: nat) \<and> is_letter (''extreme_greed'' ! (7 - 1)))
      (''extreme_greed'' ! 7) = CHR '' ''"
    by code_simp
  have c8': "caption_char (0 < (8 :: nat) \<and> is_letter (''extreme_greed'' ! (8 - 1)))
      (''extreme_greed'' ! 8) = CHR ''G''"
    by code_simp
  have c9: "caption_char (0 < (9 :: nat) \<and> is_letter (''extreme_greed'' ! (9 - 1)))
      (''extreme_greed'' ! 9) = CHR ''r''"
    by code_simp
  have n7: "formatted_rating ''extreme_greed'' ! 7 = CHR '' ''"
    using nth[rule_format, of 7] c7 by simp
  have n8: "formatted_rating ''extreme_greed'' ! 8 = CHR ''G''"
    using nth[rule_format, of 8] c8' by simp
  have n9: "formatted_rating ''extreme_greed'' ! 9 = CHR ''r''"
    using nth[rule_format, of 9] c9 by simp
  show ?thesis
    using reader a len n7 n8 n9 by simp
qed

section \<open>Claims on the coercion\<close>







section \<open>Claims on the normalizer\<close>

lemma window_coerce_commute:
  "dropna (map (\<lambda>r. (fst r, to_numeric lib (snd r))) (filter (\<lambda>r. stamp_ge (fst r) c) df))
   = filter (\<lambda>r. stamp_ge (fst r) c)
       (filter (\<lambda>r. snd r \<noteq> None) (map (\<lambda>r. (fst r, to_numeric lib (snd r))) df))"
  by (induction df) (auto simp: dropna_def)

lemma normalize_rows_spec_steps: "normalize_rows lib now tsd = spec_steps lib now tsd"
  by (simp add: normalize_rows_def spec_steps_def window_coerce_commute split: option.splits)

lemma to_datetime_col_sort_update:
  "to_datetime_col (lib\<lparr>sort_values := srt\<rparr>) tsd = to_datetime_col lib tsd"
  by (induction tsd) (auto split: option.splits)

lemma spec_normalize_Some:
  "to_datetime_col lib tsd = Some stamped \<Longrightarrow>
   spec_normalize lib now tsd =
     Some (filter (\<lambda>r. stamp_ge (fst r) (last_year_of now))
            (filter (\<lambda>r. snd r \<noteq> None)
              (map (\<lambda>r. (fst r, to_numeric lib (snd r))) (stable_sort stamped))))"
  by (simp add: spec_normalize_def spec_steps_def to_datetime_col_sort_update)

lemma spec_steps_Some:
  "to_datetime_col lib tsd = Some stamped \<Longrightarrow>
   spec_steps lib now tsd =
     Some (filter (\<lambda>r. stamp_ge (fst r) (last_year_of now))
            (filter (\<lambda>r. snd r \<noteq> None)
              (map (\<lambda>r. (fst r, to_numeric lib (snd r))) (sort_values lib stamped))))"
  by (simp add: spec_steps_def)

text \<open>
  Claim C2, as amended. The output of the normalizer is the composition of the four
  steps in the order convert, sort, coerce and drop, window, where the sort is the
  one the library runs (the code applies the window before the coercion, with the
  same output). That sort is not promised to be stable. The output is that of the
  specification's normalizer, with its stable sort, when the library's sort is the
  stable one, and for any sort that meets the contract when the timestamps of the
  points, once converted, are pairwise distinct.
\<close>

theorem normalizer_is_composition:
  "normalize_rows lib now tsd = spec_steps lib now tsd \<and>
   normalize_rows (lib\<lparr>sort_values := stable_sort\<rparr>) now tsd = spec_normalize lib now tsd \<and>
   (sort_contract (sort_values lib) \<and> to_datetime_col lib tsd = Some stamped \<and>
    distinct (map fst stamped) \<longrightarrow>
      normalize_rows lib now tsd = spec_normalize lib now tsd)"
proof -
  have "normalize_rows lib now tsd = spec_normalize lib now tsd"
    if c: "sort_contract (sort_values lib)" and s: "to_datetime_col lib tsd = Some stamped"
      and d: "distinct (map fst stamped)"
  proof -
    have "sort_values lib stamped = stable_sort stamped"
      using c d by (rule sorter_on_distinct)
    then show ?thesis
      by (simp add: normalize_rows_spec_steps spec_steps_Some[OF s] spec_normalize_Some[OF s])
  qed
  then show ?thesis
    by (simp add: normalize_rows_spec_steps spec_normalize_def)
qed

lemma distinct_rows_stamped:
  "to_datetime_col plain
     [(JNum 1700050000000, JNum 60), (JNum 1700000000000, JStr ''50''),
      (JNum 1700100000000, JNull)]
   = Some [(Some 1700050000000, JNum 60), (Some 1700000000000, JStr ''50''),
      (Some 1700100000000, JNull)]"
  by (simp add: plain_def)

lemma distinct_rows_eval:
  "normalize_rows plain 1700200000000
     [(JNum 1700050000000, JNum 60), (JNum 1700000000000, JStr ''50''),
      (JNum 1700100000000, JNull)]
   = Some [(Some 1700000000000, Some (Finite 50)), (Some 1700050000000, Some (Finite 60))]"
  by (simp add: normalize_rows_def plain_def last_year_of_def
      normalize_day_def day_ms_def dropna_def digit_of_def)

theorem normalizer_is_composition_witness:
  "sort_contract (sort_values plain) \<and>
   to_datetime_col plain
     [(JNum 1700050000000, JNum 60), (JNum 1700000000000, JStr ''50''),
      (JNum 1700100000000, JNull)]
   = Some [(Some 1700050000000, JNum 60), (Some 1700000000000, JStr ''50''),
      (Some 1700100000000, JNull)] \<and>
   distinct (map fst [(Some (1700050000000 :: real), JNum 60),
      (Some 1700000000000, JStr ''50''), (Some 1700100000000, JNull)]) \<and>
   spec_normalize plain 1700200000000
     [(JNum 1700050000000, JNum 60), (JNum 1700000000000, JStr ''50''),
      (JNum 1700100000000, JNull)]
   = Some [(Some 1700000000000, Some (Finite 50)), (Some 1700050000000, Some (Finite 60))]"
proof -
  have d: "distinct (map fst [(Some (1700050000000 :: real), JNum 60),
      (Some 1700000000000, JStr ''50''), (Some 1700100000000, JNull)])"
    by simp
  have "normalize_rows plain 1700200000000
      [(JNum 1700050000000, JNum 60), (JNum 1700000000000, JStr ''50''),
       (JNum 1700100000000, JNull)]
    = spec_normalize plain 1700200000000
      [(JNum 1700050000000, JNum 60), (JNum 1700000000000, JStr ''50''),
       (JNum 1700100000000, JNull)]"
    using normalizer_is_composition[where lib = plain and now = 1700200000000
        and tsd = "[(JNum 1700050000000, JNum 60), (JNum 1700000000000, JStr ''50''),
                    (JNum 1700100000000, JNull)]"
        and stamped = "[(Some 1700050000000, JNum 60), (Some 1700000000000, JStr ''50''),
                    (Some 1700100000000, JNull)]"]
      plain_meets_contract distinct_rows_stamped d
    by blast
  then have "spec_normalize plain 1700200000000
     [(JNum 1700050000000, JNum 60), (JNum 1700000000000, JStr ''50''),
      (JNum 1700100000000, JNull)]
   = Some [(Some 1700000000000, Some (Finite 50)), (Some 1700050000000, Some (Finite 60))]"
    using distinct_rows_eval by simp
  then show ?thesis
    using plain_meets_contract distinct_rows_stamped d by (intro conjI)
qed

lemma seventeen_ties_once:
  "normalize_rows regrouping 1700200000000 seventeen_ties
   = Some [(Some 1700000000000, Some (Finite 17)), (Some 1700000000000, Some (Finite 16)),
         (Some 1700000000000, Some (Finite 15)), (Some 1700000000000, Some (Finite 14)),
         (Some 1700000000000, Some (Finite 13)), (Some 1700000000000, Some (Finite 12)),
         (Some 1700000000000, Some (Finite 11)), (Some 1700000000000, Some (Finite 10)),
         (Some 1700000000000, Some (Finite 9)), (Some 1700000000000, Some (Finite 8)),
         (Some 1700000000000, Some (Finite 7)), (Some 1700000000000, Some (Finite 6)),
         (Some 1700000000000, Some (Finite 5)), (Some 1700000000000, Some (Finite 4)),
         (Some 1700000000000, Some (Finite 3)), (Some 1700000000000, Some (Finite 2)),
         (Some 1700000000000, Some (Finite 1))]"
  by (simp add: normalize_rows_def regrouping_def regrouping_sort_def plain_def
      seventeen_ties_def last_year_of_def normalize_day_def day_ms_def dropna_def)

lemma seventeen_ties_spec:
  "spec_normalize regrouping 1700200000000 seventeen_ties
   = Some [(Some 1700000000000, Some (Finite 1)), (Some 1700000000000, Some (Finite 2)),
         (Some 1700000000000, Some (Finite 3)), (Some 1700000000000, Some (Finite 4)),
         (Some 1700000000000, Some (Finite 5)), (Some 1700000000000, Some (Finite 6)),
         (Some 1700000000000, Some (Finite 7)), (Some 1700000000000, Some (Finite 8)),
         (Some 1700000000000, Some (Finite 9)), (Some 1700000000000, Some (Finite 10)),
         (Some 1700000000000, Some (Finite 11)), (Some 1700000000000, Some (Finite 12)),
         (Some 1700000000000, Some (Finite 13)), (Some 1700000000000, Some (Finite 14)),
         (Some 1700000000000, Some (Finite 15)), (Some 1700000000000, Some (Finite 16)),
         (Some 1700000000000, Some (Finite 17))]"
  by (simp add: spec_normalize_def spec_steps_def regrouping_def plain_def
      seventeen_ties_def last_year_of_def normalize_day_def day_ms_def)

text \<open>
  Claim C2 as stated fails on 17 points of one timestamp, for a library whose sort
  meets the contract, keeps short frames in order and not the longer ones: the
  output is not the output of the specification's normalizer, which keeps the 17
  points in the order they came in.
\<close>

theorem seventeen_ties_differ_from_spec:
  "sort_contract (sort_values regrouping) \<and>
   normalize_rows regrouping 1700200000000 seventeen_ties
   \<noteq> spec_normalize regrouping 1700200000000 seventeen_ties"
  using regrouping_meets_contract seventeen_ties_once seventeen_ties_spec by simp

lemma to_datetime_col_as_raw:
  "\<forall>r \<in> set out. reads_back lib r \<Longrightarrow>
   to_datetime_col lib (map as_raw out) = Some (map restamp out)"
proof (induction out)
  case Nil
  then show ?case by simp
next
  case (Cons r out)
  then have rest: "to_datetime_col lib (map as_raw out) = Some (map restamp out)" by simp
  from Cons.prems have rb: "reads_back lib r" by simp
  obtain t v where r: "r = (t, v)" by (cases r)
  obtain x y where xy: "as_raw (t, v) = (x, y)" by (cases "as_raw (t, v)")
  from rb r xy have "to_datetime lib x = Some t" by (simp add: reads_back_def)
  with rest r xy show ?case by (simp add: restamp_def)
qed

lemma second_pass_rows:
  assumes "\<forall>r \<in> set out. reads_back lib r \<and> stamp_ge (fst r) c \<and> snd r \<noteq> None"
  shows "dropna (map (\<lambda>r. (fst r, to_numeric lib (snd r)))
           (filter (\<lambda>r. stamp_ge (fst r) c) (map restamp out))) = out"
  using assms
proof (induction out)
  case Nil
  then show ?case by (simp add: dropna_def)
next
  case (Cons r out)
  then have rest: "dropna (map (\<lambda>r. (fst r, to_numeric lib (snd r)))
           (filter (\<lambda>r. stamp_ge (fst r) c) (map restamp out))) = out"
    by simp
  from Cons.prems have rb: "reads_back lib r" and ge: "stamp_ge (fst r) c"
    and v: "snd r \<noteq> None"
    by simp_all
  from rb have "to_numeric lib (snd (restamp r)) = snd r"
    by (simp add: reads_back_def restamp_def)
  moreover have "fst (restamp r) = fst r" by (simp add: restamp_def)
  ultimately show ?case
    using rest ge v by (simp add: dropna_def)
qed

lemma second_pass_mset:
  assumes "mset df = mset df'"
  shows "mset (dropna (map (\<lambda>r. (fst r, to_numeric lib (snd r)))
           (filter (\<lambda>r. stamp_ge (fst r) c) df)))
       = mset (dropna (map (\<lambda>r. (fst r, to_numeric lib (snd r)))
           (filter (\<lambda>r. stamp_ge (fst r) c) df')))"
  using assms by (simp add: dropna_def)

lemma ascending_restamp: "ascending out \<Longrightarrow> ascending (map restamp out)"
  by (simp add: ascending_def sorted_wrt_map restamp_def)

text \<open>
  Claim C4, as amended. Let the library's sort meet its contract and let the
  library read back the rows of the output as they are. Applied to its own output
  with the same \<open>now\<close>, the normalizer returns the same points. It returns them in
  the same order, so that it is idempotent, when the timestamps of the output are
  pairwise distinct or the library's sort is the stable one; otherwise points of
  equal timestamp may change places.
\<close>

theorem normalizer_twice:
  assumes "sort_contract (sort_values lib)" and "normalize_rows lib now tsd = Some out"
    and "\<forall>r \<in> set out. reads_back lib r"
  shows "\<exists>again. normalize_twice lib now tsd = Some again \<and>
           mset again = mset out \<and>
           (distinct (map fst out) \<or> sort_values lib = stable_sort \<longrightarrow> again = out)"
proof -
  let ?c = "last_year_of now"
  let ?tail = "\<lambda>df. dropna (map (\<lambda>r. (fst r, to_numeric lib (snd r)))
      (filter (\<lambda>r. stamp_ge (fst r) ?c) df))"
  have cut: "\<forall>r \<in> set out. stamp_ge (fst r) ?c \<and> snd r \<noteq> None"
    using normalize_after_cutoff[OF assms(2)] by fastforce
  with assms(3) have good: "\<forall>r \<in> set out. reads_back lib r \<and> stamp_ge (fst r) ?c \<and> snd r \<noteq> None"
    by blast
  have asc: "ascending (map restamp out)"
    using normalize_ascending[OF assms(1,2)] by (rule ascending_restamp)
  let ?again = "?tail (sort_values lib (map restamp out))"
  have "normalize_rows lib now (map as_raw out) = Some ?again"
    using to_datetime_col_as_raw[OF assms(3)] by (rule normalize_Some)
  then have n: "normalize_twice lib now tsd = Some ?again"
    using assms(2) by (simp add: normalize_twice_def)
  have id: "?tail (map restamp out) = out"
    using good by (rule second_pass_rows)
  have "mset (sort_values lib (map restamp out)) = mset (map restamp out)"
    using assms(1) by (simp add: sort_contract_def)
  then have "mset ?again = mset (?tail (map restamp out))"
    by (rule second_pass_mset)
  then have m: "mset ?again = mset out" using id by simp
  have "?again = out" if "distinct (map fst out) \<or> sort_values lib = stable_sort"
  proof -
    have "sort_values lib (map restamp out) = stable_sort (map restamp out)"
    proof (cases "sort_values lib = stable_sort")
      case True
      then show ?thesis by simp
    next
      case False
      with that have "distinct (map fst (map restamp out))"
        by (simp add: restamp_def comp_def)
      with assms(1) show ?thesis by (rule sorter_on_distinct)
    qed
    then have "sort_values lib (map restamp out) = map restamp out"
      using asc by (simp add: stable_sort_ascending_id)
    then show ?thesis using id by simp
  qed
  with n m show ?thesis by blast
qed

theorem normalizer_twice_witness:
  "sort_contract (sort_values plain) \<and>
   normalize_rows plain 1700200000000
     [(JNum 1700050000000, JNum 60), (JNum 1700000000000, JStr ''50''),
      (JNum 1700100000000, JNull)]
   = Some [(Some 1700000000000, Some (Finite 50)), (Some 1700050000000, Some (Finite 60))] \<and>
   reads_back plain (Some 1700000000000, Some (Finite 50)) \<and>
   reads_back plain (Some 1700050000000, Some (Finite 60)) \<and>
   distinct (map fst [(Some (1700000000000 :: real), Some (Finite 50)),
      (Some 1700050000000, Some (Finite 60))]) \<and>
   normalize_twice plain 1700200000000
     [(JNum 1700050000000, JNum 60), (JNum 1700000000000, JStr ''50''),
      (JNum 1700100000000, JNull)]
   = Some [(Some 1700000000000, Some (Finite 50)), (Some 1700050000000, Some (Finite 60))]"
proof -
  have d: "distinct (map fst [(Some (1700000000000 :: real), Some (Finite 50)),
      (Some 1700050000000, Some (Finite 60))])"
    by simp
  have r1: "reads_back plain (Some 1700000000000, Some (Finite 50))"
    by (simp add: reads_back_def plain_def)
  have r2: "reads_back plain (Some 1700050000000, Some (Finite 60))"
    by (simp add: reads_back_def plain_def)
  have rb: "\<forall>r \<in> set [(Some 1700000000000, Some (Finite 50)),
      (Some 1700050000000, Some (Finite 60))]. reads_back plain r"
    using r1 r2 by simp
  have "normalize_twice plain 1700200000000
     [(JNum 1700050000000, JNum 60), (JNum 1700000000000, JStr ''50''),
      (JNum 1700100000000, JNull)]
   = Some [(Some 1700000000000, Some (Finite 50)), (Some 1700050000000, Some (Finite 60))]"
    using normalizer_twice[OF plain_meets_contract distinct_rows_eval rb] d by blast
  then show ?thesis
    using plain_meets_contract distinct_rows_eval r1 r2 d by (intro conjI)
qed

lemma seventeen_ties_twice:
  "normalize_twice regrouping 1700200000000 seventeen_ties
   = Some [(Some 1700000000000, Some (Finite 1)), (Some 1700000000000, Some (Finite 2)),
         (Some 1700000000000, Some (Finite 3)), (Some 1700000000000, Some (Finite 4)),
         (Some 1700000000000, Some (Finite 5)), (Some 1700000000000, Some (Finite 6)),
         (Some 1700000000000, Some (Finite 7)), (Some 1700000000000, Some (Finite 8)),
         (Some 1700000000000, Some (Finite 9)), (Some 1700000000000, Some (Finite 10)),
         (Some 1700000000000, Some (Finite 11)), (Some 1700000000000, Some (Finite 12)),
         (Some 1700000000000, Some (Finite 13)), (Some 1700000000000, Some (Finite 14)),
         (Some 1700000000000, Some (Finite 15)), (Some 1700000000000, Some (Finite 16)),
         (Some 1700000000000, Some (Finite 17))]"
  unfolding normalize_twice_def seventeen_ties_once
  by (simp add: normalize_rows_def regrouping_def regrouping_sort_def plain_def
      last_year_of_def normalize_day_def day_ms_def dropna_def)

text \<open>
  Claim C4 as stated fails on 17 points of one timestamp, for a library whose sort
  meets the contract, keeps short frames in order and not the longer ones: the
  second application does not return the series that the first returned.
\<close>

theorem seventeen_ties_not_idempotent:
  "sort_contract (sort_values regrouping) \<and>
   normalize_twice regrouping 1700200000000 seventeen_ties
   \<noteq> normalize_rows regrouping 1700200000000 seventeen_ties"
  using regrouping_meets_contract seventeen_ties_twice seventeen_ties_once by simp

end
